theory Spec2Isabelle
  imports Complex_Main "HOL-Library.AList" "HOL-Library.Log_Nat"
begin

section \<open>Key-input helper (cacheb\_path.py)\<close>

text \<open>
  \<^verbatim>\<open>cacheb_key\<close> reads one line with \<^verbatim>\<open>input(prompt)\<close>. What the interactive
  read can do is the parameter of the model: it delivers a line, or it raises. The
  exceptions are split the way the two \<^verbatim>\<open>except\<close> clauses split them:
  \<^verbatim>\<open>KeyboardInterrupt\<close>, a subclass of \<^verbatim>\<open>Exception\<close> (with its message), or
  another \<^verbatim>\<open>BaseException\<close> such as \<^verbatim>\<open>SystemExit\<close>, which no clause catches.
  The result is the text written to standard output, and either the exception that
  leaves the function or the returned value (\<open>None\<close> for Python's \<^verbatim>\<open>None\<close>).
\<close>

datatype exn = KeyboardInterrupt | Exception string | OtherBaseException

datatype stdin_event = Line string | Raises exn

text \<open>
  \<^verbatim>\<open>str.strip()\<close> without argument removes leading and trailing characters for which
  \<^verbatim>\<open>str.isspace\<close> holds. Characters are read as code points below 256.
\<close>

definition is_space :: "char \<Rightarrow> bool" where
  "is_space c = ((of_char c :: nat) \<in> set [9, 10, 11, 12, 13, 28, 29, 30, 31, 32, 133, 160])"

definition strip :: "string \<Rightarrow> string" where
  "strip s = rev (dropWhile is_space (rev (dropWhile is_space s)))"

definition prompt :: string where
  "prompt = ''Please enter your cacheb key to access the Earth Hub service: ''"

text \<open>The body of the \<^verbatim>\<open>try\<close> block: the value it returns or the exception it raises.\<close>

definition cacheb_key_body :: "stdin_event \<Rightarrow> exn + string" where
  "cacheb_key_body ev =
     (case ev of
        Raises e \<Rightarrow> Inl e
      | Line s \<Rightarrow>
          (let key = strip s in
           if key = [] then Inl (Exception ''Key cannot be empty'') else Inr key))"

definition cacheb_key :: "stdin_event \<Rightarrow> string list \<times> (exn + string option)" where
  "cacheb_key ev =
     (case cacheb_key_body ev of
        Inr key \<Rightarrow> ([prompt], Inr (Some key))
      | Inl KeyboardInterrupt \<Rightarrow>
          ([prompt, CHR 0x0A # ''Key input cancelled by user''], Inr None)
      | Inl (Exception e) \<Rightarrow> ([prompt, ''Error getting key: '' @ e], Inr None)
      | Inl OtherBaseException \<Rightarrow> ([prompt], Inl OtherBaseException))"


section \<open>Dataset processor (era5\_processor.py)\<close>

subsection \<open>Data model\<close>

text \<open>
  The processor works on an \<^verbatim>\<open>xarray.Dataset\<close> with the dimensions
  \<^verbatim>\<open>valid_time\<close>, \<^verbatim>\<open>latitude\<close> and \<^verbatim>\<open>longitude\<close>. The model keeps the three
  coordinate axes and the data variables. A number is the real value of a finite
  double; infinities and NaN are not part of the model. The arithmetic of the
  longitude conversion and of the wind speed rounds every result to a double, as
  IEEE 754 does. Instants of time are integers, and the two ends of the date range
  are the first and the last instant that the date strings stand for.

  An array is represented by its values on the grid, indexed
  \<open>[time][latitude][longitude]\<close>. The model does not record which dimensions an array
  has: xarray's errors on indexing a dimension that an array lacks are outside it.
  Data variables are an association list in the order of the Python dictionary;
  \<^const>\<open>AList.update\<close> is the dictionary's assignment (an existing key keeps its place, a
  new key is appended).

  No method of the processor writes into an array that exists: each builds new arrays
  and binds them to a name. So datasets are values here, and the processor is a record
  of its seven attributes.
\<close>

datatype pyerror = ValueError | IndexError | KeyError | TypeError | AttributeError

type_synonym grid = "real list list list"

record DataArray =
  vals :: grid
  attrs :: "(string \<times> string) list"

record Dataset =
  valid_time :: "int list"
  latitude :: "real list"
  longitude :: "real list"
  data_vars :: "(string \<times> DataArray) list"

text \<open>
  The parameters \<^verbatim>\<open>variables\<close> and \<^verbatim>\<open>extract_variables\<close> are a list of names, a
  dictionary whose keys are names, or \<^verbatim>\<open>None\<close>.
\<close>

datatype names_arg = NameList "string list" | NameDict "(string \<times> string) list" | NameNone

text \<open>\<^verbatim>\<open>spatial_range\<close>: \<^verbatim>\<open>{'lat': [min_lat, max_lat], 'lon': [min_lon, max_lon]}\<close>.\<close>

record spatial_range_t =
  lat :: "real \<times> real"
  lon :: "real \<times> real"

record processor =
  dataset :: Dataset
  loaded_dataset :: "Dataset option"
  variables :: names_arg
  date_range :: "int \<times> int"
  spatial_range :: spatial_range_t
  convert_longitude :: bool
  include_attributes :: bool

definition init :: "Dataset \<Rightarrow> names_arg \<Rightarrow> int \<times> int \<Rightarrow> spatial_range_t \<Rightarrow> bool \<Rightarrow> bool
    \<Rightarrow> processor" where
  "init ds vs dr sr conv incl =
     \<lparr>dataset = ds, loaded_dataset = None, variables = vs, date_range = dr,
      spatial_range = sr, convert_longitude = conv, include_attributes = incl\<rparr>"

text \<open>
  \<^verbatim>\<open>x if isinstance(x, list) else list(x.keys())\<close>. Neither \<^verbatim>\<open>None\<close> nor the
  \<^verbatim>\<open>ValueError\<close> object that \<^verbatim>\<open>extract_components_by_given_timestep\<close> puts in its
  place has a method \<^verbatim>\<open>keys\<close>.
\<close>

definition var_list_of :: "names_arg \<Rightarrow> pyerror + string list" where
  "var_list_of a =
     (case a of
        NameList xs \<Rightarrow> Inr xs
      | NameDict d \<Rightarrow> Inr (map fst d)
      | NameNone \<Rightarrow> Inl AttributeError)"

subsection \<open>The operations of xarray that the processor calls\<close>

text \<open>
  Label-based slicing \<^verbatim>\<open>sel(dim=slice(a, b))\<close> goes through the index of the
  dimension (pandas' \<^verbatim>\<open>slice_indexer\<close>): on an ascending index the bounds are found by
  binary search, on a descending index by binary search in the reversed index, and on
  an index that is neither each label has to occur in it, as one contiguous run. Both
  ends are inclusive. An index that is ascending and descending at once (one label, or
  the same label throughout) is taken as ascending. On a sorted list the position that
  the binary search finds is the number of its elements below the label (\<open>left\<close>) or
  not above it (\<open>right\<close>).
\<close>

definition searchsorted_left :: "'a::linorder list \<Rightarrow> 'a \<Rightarrow> nat" where
  "searchsorted_left xs a = length (filter (\<lambda>x. x < a) xs)"

definition searchsorted_right :: "'a::linorder list \<Rightarrow> 'a \<Rightarrow> nat" where
  "searchsorted_right xs a = length (filter (\<lambda>x. x \<le> a) xs)"

datatype side = SideLeft | SideRight

definition get_slice_bound :: "'a::linorder list \<Rightarrow> 'a \<Rightarrow> side \<Rightarrow> pyerror + nat" where
  "get_slice_bound xs a sd =
     (if sorted xs then
        Inr (case sd of SideLeft \<Rightarrow> searchsorted_left xs a
                      | SideRight \<Rightarrow> searchsorted_right xs a)
      else if sorted (rev xs) then
        Inr (case sd of SideLeft \<Rightarrow> length xs - searchsorted_right (rev xs) a
                      | SideRight \<Rightarrow> length xs - searchsorted_left (rev xs) a)
      else
        (let ps = filter (\<lambda>i. xs ! i = a) [0..<length xs] in
         if ps \<noteq> [] \<and> ps = [hd ps..<Suc (last ps)] then
           Inr (case sd of SideLeft \<Rightarrow> hd ps | SideRight \<Rightarrow> Suc (last ps))
         else Inl KeyError))"

definition slice_indexer :: "'a::linorder list \<Rightarrow> 'a \<Rightarrow> 'a \<Rightarrow> pyerror + nat \<times> nat" where
  "slice_indexer xs a b =
     (case get_slice_bound xs a SideLeft of
        Inl e \<Rightarrow> Inl e
      | Inr s \<Rightarrow>
          (case get_slice_bound xs b SideRight of
             Inl e \<Rightarrow> Inl e
           | Inr t \<Rightarrow> Inr (s, t)))"

text \<open>The positional slice \<^verbatim>\<open>xs[s:t]\<close> for \<open>s\<close> and \<open>t\<close> within the list.\<close>

definition islice :: "nat \<times> nat \<Rightarrow> 'a list \<Rightarrow> 'a list" where
  "islice se xs = take (snd se - fst se) (drop (fst se) xs)"

definition map_vals :: "(grid \<Rightarrow> grid) \<Rightarrow> (string \<times> DataArray) list \<Rightarrow> (string \<times> DataArray) list"
  where
  "map_vals f dvs = map (\<lambda>(n, v). (n, v\<lparr>vals := f (vals v)\<rparr>)) dvs"

definition sel_valid_time :: "Dataset \<Rightarrow> int \<Rightarrow> int \<Rightarrow> pyerror + Dataset" where
  "sel_valid_time ds a b =
     (case slice_indexer (valid_time ds) a b of
        Inl e \<Rightarrow> Inl e
      | Inr se \<Rightarrow>
          Inr (ds\<lparr>valid_time := islice se (valid_time ds),
                  data_vars := map_vals (islice se) (data_vars ds)\<rparr>))"

text \<open>\<^verbatim>\<open>sel(latitude=slice(a, b), longitude=slice(c, d))\<close>.\<close>

definition sel_region :: "Dataset \<Rightarrow> real \<Rightarrow> real \<Rightarrow> real \<Rightarrow> real \<Rightarrow> pyerror + Dataset" where
  "sel_region ds a b c d =
     (case slice_indexer (latitude ds) a b of
        Inl e \<Rightarrow> Inl e
      | Inr la \<Rightarrow>
          (case slice_indexer (longitude ds) c d of
             Inl e \<Rightarrow> Inl e
           | Inr lo \<Rightarrow>
               Inr (ds\<lparr>latitude := islice la (latitude ds),
                       longitude := islice lo (longitude ds),
                       data_vars :=
                         map_vals (map (\<lambda>plane. map (islice lo) (islice la plane)))
                           (data_vars ds)\<rparr>)))"

text \<open>
  \<^verbatim>\<open>key in ds\<close> holds for the names of data variables and of coordinates alike.
\<close>

definition coord_names :: "string list" where
  "coord_names = [''valid_time'', ''latitude'', ''longitude'']"

definition ds_contains :: "Dataset \<Rightarrow> string \<Rightarrow> bool" where
  "ds_contains ds n = (n \<in> set (map fst (data_vars ds)) \<or> n \<in> set coord_names)"

text \<open>
  \<^verbatim>\<open>ds[names]\<close> with a list of names: a \<^verbatim>\<open>KeyError\<close> unless every name is in the
  dataset; the data variables among them are kept, each once, in the order of the list.
\<close>

definition getitem_names :: "Dataset \<Rightarrow> string list \<Rightarrow> pyerror + Dataset" where
  "getitem_names ds names =
     (if list_all (ds_contains ds) names then
        Inr (ds\<lparr>data_vars :=
                  List.map_filter (\<lambda>n. map_option (Pair n) (map_of (data_vars ds) n))
                    (rev (remdups (rev names)))\<rparr>)
      else Inl KeyError)"

text \<open>
  Arithmetic on doubles. The result of an operation is the exact result rounded to the
  nearest double, and to the one with an even last digit when two are equally near.
  \<open>expo x\<close> is the exponent of the power of two at or below the magnitude of \<open>x\<close>
  (found by counting bits), and \<open>ulp x\<close> the distance between the doubles around
  \<open>x\<close>: 52 binary digits below \<open>expo x\<close>, and no finer than the subnormal doubles.
  No result in the longitude conversion is beyond the largest double; a square in the
  wind speed is, for a component beyond \<open>2 ^ 511\<close>, and there the code has an
  infinity, which the model has not.
\<close>

definition pow2 :: "int \<Rightarrow> real" where
  "pow2 e = (if 0 \<le> e then 2 ^ nat e else 1 / 2 ^ nat (- e))"

definition expo :: "real \<Rightarrow> int" where
  "expo x = (if 1 \<le> \<bar>x\<bar> then bitlen \<lfloor>\<bar>x\<bar>\<rfloor> - 1 else - bitlen (\<lceil>1 / \<bar>x\<bar>\<rceil> - 1))"

definition ulp :: "real \<Rightarrow> real" where
  "ulp x = pow2 (max (expo x) (- 1022) - 52)"

definition round_half_even :: "real \<Rightarrow> int" where
  "round_half_even y =
     (let f = \<lfloor>y\<rfloor>; d = y - of_int f
      in if d < 1 / 2 then f else if 1 / 2 < d then f + 1 else if even f then f else f + 1)"

definition round_double :: "real \<Rightarrow> real" where
  "round_double x = (if x = 0 then 0 else ulp x * of_int (round_half_even (x / ulp x)))"

text \<open>
  \<^verbatim>\<open>%\<close> on doubles, for a divisor other than zero: the remainder of C's
  \<^verbatim>\<open>fmod\<close>, which is exact and has the sign of the dividend, and to which the divisor
  is added, with rounding, when it is not zero and its sign is not that of the divisor.
\<close>

definition c_fmod :: "real \<Rightarrow> real \<Rightarrow> real" where
  "c_fmod x m = x - m * of_int (if 0 \<le> x / m then \<lfloor>x / m\<rfloor> else \<lceil>x / m\<rceil>)"

definition float_mod :: "real \<Rightarrow> real \<Rightarrow> real" where
  "float_mod x m =
     (let r = c_fmod x m
      in if r \<noteq> 0 \<and> (r < 0) \<noteq> (m < 0) then round_double (r + m) else r)"

text \<open>\<^verbatim>\<open>(longitude + 180) % 360 - 180\<close>, each of the three operations rounded.\<close>

definition convert_lon :: "real \<Rightarrow> real" where
  "convert_lon x = round_double (float_mod (round_double (x + 180)) 360 - 180)"

text \<open>
  \<^verbatim>\<open>np.sqrt(u ** 2 + v ** 2)\<close> at one position: the two squares, their sum and the
  root, each rounded.
\<close>

definition wind_value :: "real \<Rightarrow> real \<Rightarrow> real" where
  "wind_value x y = round_double (sqrt (round_double (round_double (x\<^sup>2) + round_double (y\<^sup>2))))"

text \<open>
  \<^verbatim>\<open>sortby('longitude')\<close> reorders the longitude axis, and every variable along it, by
  a stable sort of the positions by their longitude.
\<close>

definition argsort :: "real list \<Rightarrow> nat list" where
  "argsort xs = sort_key (\<lambda>i. xs ! i) [0..<length xs]"

definition take_idx :: "nat list \<Rightarrow> 'a list \<Rightarrow> 'a list" where
  "take_idx perm xs = map (\<lambda>i. xs ! i) perm"

definition sortby_longitude :: "Dataset \<Rightarrow> Dataset" where
  "sortby_longitude ds =
     (let perm = argsort (longitude ds) in
      ds\<lparr>longitude := take_idx perm (longitude ds),
         data_vars := map_vals (map (map (take_idx perm))) (data_vars ds)\<rparr>)"

text \<open>
  What \<^verbatim>\<open>calculate_wind_speed\<close> meets of xarray and of the dataset beyond this data
  model is a parameter of it:
  \<^item> \<open>arith_attrs\<close>, the attributes of the result of \<^verbatim>\<open>np.sqrt(a ** 2 + b ** 2)\<close>
    from those of \<open>a\<close> and of \<open>b\<close>: they depend on xarray's option \<^verbatim>\<open>keep_attrs\<close>
    and on its default, which is not the same in every release;
  \<^item> \<open>coord_attrs\<close>, the attributes of the coordinate of a name;
  \<^item> \<open>setitem_coord\<close>, the outcome of \<^verbatim>\<open>ds[name] = array\<close> for the name of a
    coordinate: an exception, or the dataset after it. xarray replaces the coordinate by
    the array there and adds no data variable (a release that allows no such array
    refuses); the data model has no dataset with an array in the place of an axis, so
    it asserts nothing about that dataset.
\<close>

record environment =
  arith_attrs :: "(string \<times> string) list \<Rightarrow> (string \<times> string) list \<Rightarrow> (string \<times> string) list"
  coord_attrs :: "string \<Rightarrow> (string \<times> string) list"
  setitem_coord :: "Dataset \<Rightarrow> string \<Rightarrow> DataArray \<Rightarrow> pyerror + Dataset"

text \<open>
  \<^verbatim>\<open>ds[name]\<close> as an operand of arithmetic. A coordinate is constant along the other
  two dimensions; the time coordinate holds dates, on which \<^verbatim>\<open>** 2\<close> is a
  \<^verbatim>\<open>TypeError\<close>.
\<close>

definition ds_getitem :: "environment \<Rightarrow> Dataset \<Rightarrow> string \<Rightarrow> pyerror + DataArray" where
  "ds_getitem env ds n =
     (case map_of (data_vars ds) n of
        Some v \<Rightarrow> Inr v
      | None \<Rightarrow>
          if n = ''latitude'' then
            Inr \<lparr>vals = map (\<lambda>t. map (\<lambda>y. map (\<lambda>x. y) (longitude ds)) (latitude ds))
                          (valid_time ds),
                 attrs = coord_attrs env n\<rparr>
          else if n = ''longitude'' then
            Inr \<lparr>vals = map (\<lambda>t. map (\<lambda>y. longitude ds) (latitude ds)) (valid_time ds),
                 attrs = coord_attrs env n\<rparr>
          else if n = ''valid_time'' then Inl TypeError
          else Inl KeyError)"

text \<open>
  \<^verbatim>\<open>ds[name] = array\<close>: for a name that is not the name of a coordinate, the
  assignment of the dictionary of data variables.
\<close>

definition ds_setitem :: "environment \<Rightarrow> Dataset \<Rightarrow> string \<Rightarrow> DataArray \<Rightarrow> pyerror + Dataset"
  where
  "ds_setitem env ds n a =
     (if n \<in> set coord_names then setitem_coord env ds n a
      else Inr (ds\<lparr>data_vars := AList.update n a (data_vars ds)\<rparr>))"

text \<open>Element-wise arithmetic of two arrays on the same grid.\<close>

definition grid_map2 :: "(real \<Rightarrow> real \<Rightarrow> real) \<Rightarrow> grid \<Rightarrow> grid \<Rightarrow> grid" where
  "grid_map2 f a b = map2 (map2 (map2 f)) a b"

text \<open>
  \<^verbatim>\<open>xs[::step]\<close>: every \<open>step\<close>-th element from the first one on for a positive step,
  from the last one backwards for a negative step; a step of zero is a \<^verbatim>\<open>ValueError\<close>.
\<close>

fun stride :: "nat \<Rightarrow> 'a list \<Rightarrow> 'a list" where
  "stride k [] = []"
| "stride k (x # xs) = x # stride k (drop (k - 1) xs)"

definition strided :: "int \<Rightarrow> 'a list \<Rightarrow> 'a list" where
  "strided step xs = (if 0 < step then stride (nat step) xs else stride (nat (- step)) (rev xs))"

definition slice_step :: "int \<Rightarrow> 'a list \<Rightarrow> pyerror + 'a list" where
  "slice_step step xs = (if step = 0 then Inl ValueError else Inr (strided step xs))"

text \<open>
  \<^verbatim>\<open>isel(valid_time=timestep)\<close> with an integer: a negative position counts from the
  end of the axis, and a position outside the axis is an \<^verbatim>\<open>IndexError\<close>. The
  length of the axis is that of the dataset, which every array of the dataset shares.
\<close>

datatype out_value = TimeSlice "real list list" "(string \<times> string) list" | CoordArray "real list"

definition isel_valid_time :: "Dataset \<Rightarrow> DataArray \<Rightarrow> int \<Rightarrow> pyerror + out_value" where
  "isel_valid_time data v timestep =
     (let n = int (length (valid_time data));
          k = (if timestep < 0 then timestep + n else timestep)
      in if 0 \<le> k \<and> k < n then Inr (TimeSlice (vals v ! nat k) (attrs v)) else Inl IndexError)"

subsection \<open>The methods of the processor\<close>

text \<open>
  Every method takes the processor and returns what the call gives back (an exception
  or a value) together with the processor after the call.
\<close>

definition process_data :: "processor \<Rightarrow> (pyerror + unit) \<times> processor" where
  "process_data self =
     (let (start_date, end_date) = date_range self;
          latitude_range = lat (spatial_range self);
          longitude_range = lon (spatial_range self)
      in case sel_valid_time (dataset self) start_date end_date of
           Inl e \<Rightarrow> (Inl e, self)
         | Inr data \<Rightarrow>
      (case var_list_of (variables self) of
           Inl e \<Rightarrow> (Inl e, self)
         | Inr var_list \<Rightarrow>
      (case getitem_names data var_list of
           Inl e \<Rightarrow> (Inl e, self)
         | Inr data \<Rightarrow>
      (let data = (if convert_longitude self
                   then sortby_longitude (data\<lparr>longitude := map convert_lon (longitude data)\<rparr>)
                   else data)
       in case sel_region data (snd latitude_range) (fst latitude_range)
                 (fst longitude_range) (snd longitude_range) of
            Inl e \<Rightarrow> (Inl e, self)
          | Inr data \<Rightarrow> (Inr (), self\<lparr>loaded_dataset := Some data\<rparr>)))))"

fun extract_loop :: "Dataset \<Rightarrow> int \<Rightarrow> string list \<Rightarrow> (string \<times> out_value) list
    \<Rightarrow> pyerror + (string \<times> out_value) list" where
  "extract_loop data timestep [] output_vars = Inr output_vars"
| "extract_loop data timestep (var # rest) output_vars =
     (case map_of (data_vars data) var of
        None \<Rightarrow> Inl KeyError
      | Some v \<Rightarrow>
          (case isel_valid_time data v timestep of
             Inl e \<Rightarrow> Inl e
           | Inr sl \<Rightarrow> extract_loop data timestep rest (AList.update var sl output_vars)))"

definition extract_components_by_given_timestep ::
    "processor \<Rightarrow> int \<Rightarrow> names_arg \<Rightarrow> bool \<Rightarrow> (pyerror + (string \<times> out_value) list) \<times> processor"
  where
  "extract_components_by_given_timestep self timestep extract_variables lat_long =
     (case loaded_dataset self of
        None \<Rightarrow> (Inl ValueError, self)
      | Some data \<Rightarrow>
          if int (length (valid_time data)) \<le> timestep then (Inl IndexError, self)
          else
            (case var_list_of extract_variables of
               Inl e \<Rightarrow> (Inl e, self)
             | Inr var_list \<Rightarrow>
                 (case extract_loop data timestep var_list [] of
                    Inl e \<Rightarrow> (Inl e, self)
                  | Inr output_vars \<Rightarrow>
                      (Inr (if lat_long
                            then AList.update ''long'' (CoordArray (longitude data))
                                   (AList.update ''lat'' (CoordArray (latitude data)) output_vars)
                            else output_vars),
                       self))))"

text \<open>
  Lines 121 to 129 bind \<^verbatim>\<open>new_var_name\<close> to the wind speed and then, when attributes
  are included, give that entry its two attributes: together they bind the name to the
  array \<open>stored\<close> below. The units are read from \<^verbatim>\<open>ds[u_component]\<close> after the name
  is bound, which is the new array itself when the two names are the same.
\<close>

definition wind_attrs :: "string \<Rightarrow> string \<Rightarrow> (string \<times> string) list \<Rightarrow> (string \<times> string) list"
  where
  "wind_attrs u_component v_component u_attrs =
     [(''long_name'', ''Wind Speed calculated from '' @ u_component @ '' and '' @ v_component),
      (''units'', (case map_of u_attrs ''units'' of None \<Rightarrow> ''m s**-1'' | Some un \<Rightarrow> un))]"

definition calculate_wind_speed ::
    "environment \<Rightarrow> processor \<Rightarrow> string \<Rightarrow> string \<Rightarrow> string \<Rightarrow> (pyerror + unit) \<times> processor"
  where
  "calculate_wind_speed env self u_component v_component new_var_name =
     (case loaded_dataset self of
        None \<Rightarrow> (Inl ValueError, self)
      | Some ds \<Rightarrow>
          if \<not> ds_contains ds u_component \<or> \<not> ds_contains ds v_component
          then (Inl ValueError, self)
          else
            (case ds_getitem env ds u_component of
               Inl e \<Rightarrow> (Inl e, self)
             | Inr ua \<Rightarrow>
                 (case ds_getitem env ds v_component of
                    Inl e \<Rightarrow> (Inl e, self)
                  | Inr va \<Rightarrow>
                      (let wind_speed =
                             \<lparr>vals = grid_map2 wind_value (vals ua) (vals va),
                              attrs = arith_attrs env (attrs ua) (attrs va)\<rparr>;
                           u_attrs = (if u_component = new_var_name then attrs wind_speed
                                      else attrs ua);
                           stored = (if include_attributes self
                                     then wind_speed\<lparr>attrs :=
                                            wind_attrs u_component v_component u_attrs\<rparr>
                                     else wind_speed)
                       in case ds_setitem env ds new_var_name stored of
                            Inl e \<Rightarrow> (Inl e, self)
                          | Inr ds' \<Rightarrow> (Inr (), self\<lparr>loaded_dataset := Some ds'\<rparr>)))))"

text \<open>
  The new dataset is built from the subsampled variables alone, so it has the time axis
  only when there is a variable that carries it.
\<close>

definition subsample_data :: "processor \<Rightarrow> int \<Rightarrow> (pyerror + Dataset) \<times> processor" where
  "subsample_data self step =
     (case loaded_dataset self of
        None \<Rightarrow> (Inl ValueError, self)
      | Some ds \<Rightarrow>
          (case slice_step step (longitude ds) of
             Inl e \<Rightarrow> (Inl e, self)
           | Inr lon_sub \<Rightarrow>
               (case slice_step step (latitude ds) of
                  Inl e \<Rightarrow> (Inl e, self)
                | Inr lat_sub \<Rightarrow>
                    (let subsampled_vars =
                           map_vals (map (\<lambda>plane. map (strided step) (strided step plane)))
                             (data_vars ds)
                     in (Inr \<lparr>valid_time = (if subsampled_vars = [] then [] else valid_time ds),
                              latitude = lat_sub, longitude = lon_sub,
                              data_vars = subsampled_vars\<rparr>,
                         self)))))"

definition get_processed_data :: "processor \<Rightarrow> (pyerror + Dataset) \<times> processor" where
  "get_processed_data self =
     (case loaded_dataset self of
        None \<Rightarrow> (Inl ValueError, self)
      | Some ds \<Rightarrow> (Inr ds, self))"


subsection \<open>Sequences of calls\<close>

text \<open>
  A caller uses a processor through its five methods. \<open>call\<close> is the processor after
  one call, whatever the call returned or raised, and \<open>calls\<close> the processor after a
  sequence of calls.
\<close>

datatype method_call =
    ProcessData
  | ExtractComponents int names_arg bool
  | CalculateWindSpeed string string string
  | SubsampleData int
  | GetProcessedData

fun call :: "environment \<Rightarrow> method_call \<Rightarrow> processor \<Rightarrow> processor" where
  "call env ProcessData self = snd (process_data self)"
| "call env (ExtractComponents timestep extract_variables lat_long) self =
     snd (extract_components_by_given_timestep self timestep extract_variables lat_long)"
| "call env (CalculateWindSpeed u_component v_component new_var_name) self =
     snd (calculate_wind_speed env self u_component v_component new_var_name)"
| "call env (SubsampleData step) self = snd (subsample_data self step)"
| "call env GetProcessedData self = snd (get_processed_data self)"

definition calls :: "environment \<Rightarrow> method_call list \<Rightarrow> processor \<Rightarrow> processor" where
  "calls env cs self = fold (call env) cs self"

subsection \<open>Arrays on the grid of a dataset\<close>


subsection \<open>Subsampling, in the words of the specification\<close>


subsection \<open>A small dataset\<close>

text \<open>
  Three instants, two latitudes (north to south) and two longitudes in the convention
  0 to 360, with the two wind components. The processor keeps the instants 1 to 2,
  the latitudes 45 to 55 and the longitudes -100 to 50, and converts the longitudes.
\<close>

definition example_u10 :: DataArray where
  "example_u10 = \<lparr>vals = [[[1, 1], [1, 1]], [[3, 6], [0, 8]], [[12, 15], [20, 1]]],
                   attrs = [(''units'', ''m/s'')]\<rparr>"

definition example_v10 :: DataArray where
  "example_v10 = \<lparr>vals = [[[1, 1], [1, 1]], [[4, 8], [0, 15]], [[5, 8], [21, 0]]],
                   attrs = []\<rparr>"

definition example_ds :: Dataset where
  "example_ds = \<lparr>valid_time = [0, 1, 2], latitude = [50, 40], longitude = [0, 270],
                  data_vars = [(''u10'', example_u10), (''v10'', example_v10)]\<rparr>"

definition example_proc :: processor where
  "example_proc = init example_ds (NameList [''u10'', ''v10'']) (1, 2)
                    \<lparr>lat = (45, 55), lon = (-100, 50)\<rparr> True True"

definition example_loaded :: Dataset where
  "example_loaded = \<lparr>valid_time = [1, 2], latitude = [50], longitude = [-90, 0],
      data_vars = [(''u10'', \<lparr>vals = [[[6, 3]], [[15, 12]]], attrs = [(''units'', ''m/s'')]\<rparr>),
                   (''v10'', \<lparr>vals = [[[8, 4]], [[8, 5]]], attrs = []\<rparr>)]\<rparr>"

definition example_processed :: processor where
  "example_processed = example_proc\<lparr>loaded_dataset := Some example_loaded\<rparr>"

text \<open>
  One environment, for the examples: arithmetic gives no attributes (\<^verbatim>\<open>keep_attrs\<close>
  off), the coordinates have none, and an array on the grid is refused under the name
  of a dimension (xarray's \<^verbatim>\<open>MissingDimensionsError\<close>, a \<^verbatim>\<open>ValueError\<close>, of the
  releases that allow no such variable). No example binds the name of a coordinate.
\<close>

definition example_env :: environment where
  "example_env =
     \<lparr>arith_attrs = (\<lambda>a b. []), coord_attrs = (\<lambda>n. []),
      setitem_coord = (\<lambda>ds n a. Inl ValueError)\<rparr>"














section \<open>Properties of the key-input helper\<close>

text \<open>
  Claim C9. For every input line that is empty after trimming whitespace,
  \<^verbatim>\<open>cacheb_key\<close> prints the error message and returns \<^verbatim>\<open>None\<close>, and no exception
  leaves the function; for every line that is not empty after trimming, it returns the
  trimmed string.
\<close>

theorem cacheb_key_line:
  "(strip s = [] \<longrightarrow>
      cacheb_key (Line s) = ([prompt, ''Error getting key: Key cannot be empty''], Inr None))
   \<and> (strip s \<noteq> [] \<longrightarrow> cacheb_key (Line s) = ([prompt], Inr (Some (strip s))))"
  by (simp add: cacheb_key_def cacheb_key_body_def Let_def)

theorem cacheb_key_line_witness:
  "cacheb_key (Line [CHR '' '', CHR 0x09]) =
     ([prompt, ''Error getting key: Key cannot be empty''], Inr None)
   \<and> cacheb_key (Line '' k3y '') = ([prompt], Inr (Some ''k3y''))"
proof -
  have e: "strip [CHR '' '', CHR 0x09] = []"
    by (simp add: strip_def is_space_def)
  have n: "strip '' k3y '' = ''k3y''"
    by (simp add: strip_def is_space_def)
  show ?thesis
    using cacheb_key_line [of "[CHR '' '', CHR 0x09]"] cacheb_key_line [of "'' k3y ''"] e n
    by simp
qed


section \<open>Properties of the dataset processor\<close>

text \<open>
  Claim C2. On a processor on which \<^verbatim>\<open>process_data\<close> has not run (the loaded dataset
  is \<^verbatim>\<open>None\<close>), each of \<^verbatim>\<open>extract_components_by_given_timestep\<close>,
  \<^verbatim>\<open>calculate_wind_speed\<close>, \<^verbatim>\<open>subsample_data\<close> and \<^verbatim>\<open>get_processed_data\<close> raises
  \<^verbatim>\<open>ValueError\<close> and leaves the processor as it was.
\<close>

theorem unprocessed_raises:
  assumes "loaded_dataset self = None"
  shows "extract_components_by_given_timestep self timestep extract_variables lat_long
           = (Inl ValueError, self)
     \<and> calculate_wind_speed env self u_component v_component new_var_name
           = (Inl ValueError, self)
     \<and> subsample_data self step = (Inl ValueError, self)
     \<and> get_processed_data self = (Inl ValueError, self)"
  using assms
  by (simp add: extract_components_by_given_timestep_def calculate_wind_speed_def
      subsample_data_def get_processed_data_def)

text \<open>
  The small dataset: \<^verbatim>\<open>process_data\<close> on the new processor gives the processed one.
\<close>

lemma example_process_data: "process_data example_proc = (Inr (), example_processed)"
  by code_simp

lemma example_loaded_dataset: "loaded_dataset example_processed = Some example_loaded"
  by (simp add: example_processed_def)

text \<open>On the new processor of the small dataset, all four methods raise.\<close>

theorem unprocessed_raises_witness:
  "loaded_dataset example_proc = None
   \<and> extract_components_by_given_timestep example_proc 0 (NameList [''u10'']) True
       = (Inl ValueError, example_proc)
   \<and> calculate_wind_speed example_env example_proc ''u10'' ''v10'' ''wind_speed''
       = (Inl ValueError, example_proc)
   \<and> subsample_data example_proc 2 = (Inl ValueError, example_proc)
   \<and> get_processed_data example_proc = (Inl ValueError, example_proc)"
proof -
  have h: "loaded_dataset example_proc = None"
    by (simp add: example_proc_def init_def)
  show ?thesis
    using h
      unprocessed_raises [OF h, where timestep = 0 and extract_variables = "NameList [''u10'']"
        and lat_long = True and env = example_env and u_component = "''u10''"
        and v_component = "''v10''" and new_var_name = "''wind_speed''" and step = 2]
    by simp
qed

text \<open>
  Claim C4. In a processed state, when the name of the u component or of the v component
  is not in the loaded dataset, \<^verbatim>\<open>calculate_wind_speed\<close> raises \<^verbatim>\<open>ValueError\<close> and
  the processor, with its loaded dataset, is what it was before the call.
\<close>

theorem wind_speed_missing_component:
  assumes "loaded_dataset self = Some ds"
    and "\<not> ds_contains ds u_component \<or> \<not> ds_contains ds v_component"
  shows "calculate_wind_speed env self u_component v_component new_var_name
           = (Inl ValueError, self)"
  using assms by (auto simp: calculate_wind_speed_def)

text \<open>On the small dataset, processed, there is no variable \<^verbatim>\<open>u100\<close>.\<close>

theorem wind_speed_missing_component_witness:
  "loaded_dataset example_processed = Some example_loaded
   \<and> \<not> ds_contains example_loaded ''u100''
   \<and> calculate_wind_speed example_env example_processed ''u100'' ''v10'' ''wind_speed''
       = (Inl ValueError, example_processed)"
proof -
  have c: "\<not> ds_contains example_loaded ''u100''"
    by (simp add: ds_contains_def example_loaded_def coord_names_def)
  then have "\<not> ds_contains example_loaded ''u100'' \<or> \<not> ds_contains example_loaded ''v10''"
    by simp
  from wind_speed_missing_component
    [OF example_loaded_dataset this, where env = example_env and new_var_name = "''wind_speed''"] c
  show ?thesis by (simp add: example_loaded_dataset)
qed

subsection \<open>The time index of \<^verbatim>\<open>extract_components_by_given_timestep\<close>\<close>

text \<open>
  With \<open>N\<close> the length of the time axis, a time index from \<open>-N\<close> up to \<open>N - 1\<close> is
  accepted by \<^verbatim>\<open>isel\<close>, and the loop over the requested variables then never raises
  \<^verbatim>\<open>IndexError\<close>; it returns when every requested name is a data variable, and its
  result holds for every requested name the slice of that variable.
\<close>

lemma isel_valid_time_in_range:
  assumes "- int (length (valid_time data)) \<le> t" and "t < int (length (valid_time data))"
  shows "isel_valid_time data v t =
           Inr (TimeSlice (vals v ! nat (if t < 0 then t + int (length (valid_time data)) else t))
                  (attrs v))"
  using assms by (simp add: isel_valid_time_def Let_def)

lemma extract_loop_no_IndexError:
  assumes "- int (length (valid_time data)) \<le> t" and "t < int (length (valid_time data))"
  shows "extract_loop data t vs acc \<noteq> Inl IndexError"
  using assms
  by (induction vs arbitrary: acc)
     (simp_all add: isel_valid_time_in_range split: option.splits)



text \<open>
  Claim C1, as the code has it. In a processed state with a time axis of length \<open>N\<close>,
  \<^verbatim>\<open>extract_components_by_given_timestep\<close> checks the time index against the upper
  end only: every time index from \<open>N\<close> on raises \<^verbatim>\<open>IndexError\<close> and leaves the
  processor as it was, and no time index from \<open>-N\<close> up to \<open>N - 1\<close> raises
  \<^verbatim>\<open>IndexError\<close>.
\<close>

theorem timestep_upper_bound_checked:
  assumes "loaded_dataset self = Some data"
  shows "(int (length (valid_time data)) \<le> timestep \<longrightarrow>
            extract_components_by_given_timestep self timestep extract_variables lat_long
              = (Inl IndexError, self))
       \<and> (- int (length (valid_time data)) \<le> timestep \<and> timestep < int (length (valid_time data)) \<longrightarrow>
            fst (extract_components_by_given_timestep self timestep extract_variables lat_long)
              \<noteq> Inl IndexError)"
  using assms
  by (auto simp: extract_components_by_given_timestep_def var_list_of_def extract_loop_no_IndexError
      split: sum.splits names_arg.splits)

text \<open>
  On the small dataset, processed (\<open>N = 2\<close>): the time index 2 raises \<^verbatim>\<open>IndexError\<close>,
  the time index -2 does not.
\<close>

theorem timestep_upper_bound_checked_witness:
  "loaded_dataset example_processed = Some example_loaded
   \<and> extract_components_by_given_timestep example_processed 2 (NameList [''u10'']) True
       = (Inl IndexError, example_processed)
   \<and> fst (extract_components_by_given_timestep example_processed (- 2) (NameList [''u10'']) True)
       \<noteq> Inl IndexError"
  using timestep_upper_bound_checked [OF example_loaded_dataset, of 2 "NameList [''u10'']" True]
    timestep_upper_bound_checked [OF example_loaded_dataset, of "- 2" "NameList [''u10'']" True]
  by (simp add: example_loaded_dataset example_loaded_def)

text \<open>
  Claim C1 as stated fails: it has every negative time index raise a bounds error. On
  the small dataset, processed, the time index -1 is negative, and the call returns the
  last slice.
\<close>

theorem negative_timestep_counterexample:
  "loaded_dataset example_processed = Some example_loaded
   \<and> length (valid_time example_loaded) = 2
   \<and> extract_components_by_given_timestep example_processed (- 1) (NameList [''u10'']) True
       = (Inr [(''u10'', TimeSlice [[15, 12]] [(''units'', ''m/s'')]),
               (''lat'', CoordArray [50]), (''long'', CoordArray [- 90, 0])],
          example_processed)"
  by code_simp




subsection \<open>\<^verbatim>\<open>process_data\<close> recomputes from the original dataset\<close>

text \<open>
  No method writes a field of the processor other than \<^verbatim>\<open>loaded_dataset\<close>, and
  \<^verbatim>\<open>process_data\<close> does not read that field.
\<close>

lemma process_data_state:
  "snd (process_data self) = self
   \<or> (\<exists>d. snd (process_data self) = self\<lparr>loaded_dataset := Some d\<rparr>)"
  by (auto simp: process_data_def Let_def split: sum.splits prod.splits)

lemma call_keeps_input:
  "\<exists>l. call env c self = self\<lparr>loaded_dataset := l\<rparr>"
proof (cases c)
  case ProcessData
  have "self = self\<lparr>loaded_dataset := loaded_dataset self\<rparr>" by simp
  with process_data_state [of self] ProcessData show ?thesis
    by (metis call.simps(1))
next
  case (ExtractComponents t ev ll)
  have "call env c self = self"
    using ExtractComponents
    by (auto simp: extract_components_by_given_timestep_def split: option.splits sum.splits)
  then show ?thesis by (metis processor.update_convs(2) processor.surjective) 
next
  case (CalculateWindSpeed u v n)
  have "call env c self = self \<or> (\<exists>d. call env c self = self\<lparr>loaded_dataset := Some d\<rparr>)"
    using CalculateWindSpeed
    by (auto simp: calculate_wind_speed_def Let_def split: option.splits sum.splits)
  moreover have "self = self\<lparr>loaded_dataset := loaded_dataset self\<rparr>" by simp
  ultimately show ?thesis by metis
next
  case (SubsampleData step)
  have "call env c self = self"
    using SubsampleData
    by (auto simp: subsample_data_def Let_def split: option.splits sum.splits)
  moreover have "self = self\<lparr>loaded_dataset := loaded_dataset self\<rparr>" by simp
  ultimately show ?thesis by metis
next
  case GetProcessedData
  have "call env c self = self"
    using GetProcessedData
    by (auto simp: get_processed_data_def split: option.splits)
  moreover have "self = self\<lparr>loaded_dataset := loaded_dataset self\<rparr>" by simp
  ultimately show ?thesis by metis
qed

lemma calls_keep_input: "\<exists>l. calls env cs self = self\<lparr>loaded_dataset := l\<rparr>"
proof (induction cs arbitrary: self)
  case Nil
  have "self = self\<lparr>loaded_dataset := loaded_dataset self\<rparr>" by simp
  then show ?case unfolding calls_def by (metis fold_simps(1))
next
  case (Cons c cs)
  obtain l where l: "call env c self = self\<lparr>loaded_dataset := l\<rparr>"
    using call_keeps_input by blast
  from Cons [of "call env c self"] obtain l' where
    "calls env cs (call env c self) = (call env c self)\<lparr>loaded_dataset := l'\<rparr>" by blast
  with l have "calls env (c # cs) self = self\<lparr>loaded_dataset := l'\<rparr>"
    by (simp add: calls_def)
  then show ?case by blast
qed

lemma process_data_ignores_loaded:
  "process_data (self\<lparr>loaded_dataset := l\<rparr>) =
     (case fst (process_data self) of
        Inl e \<Rightarrow> (Inl e, self\<lparr>loaded_dataset := l\<rparr>)
      | Inr u \<Rightarrow> (Inr u, snd (process_data self)))"
  by (auto simp: process_data_def Let_def split: sum.splits prod.splits)

text \<open>
  Claim C8. After any sequence of calls of the methods (among them
  \<^verbatim>\<open>process_data\<close> itself and \<^verbatim>\<open>calculate_wind_speed\<close>, which changes the loaded
  dataset), the original dataset of the processor is what it was, and \<^verbatim>\<open>process_data\<close>
  does what a single call on the processor does: it raises the same exception, or it
  succeeds and leaves the processor with the same loaded dataset.
\<close>

theorem process_data_recomputes:
  "dataset (calls env cs self) = dataset self
   \<and> fst (process_data (calls env cs self)) = fst (process_data self)
   \<and> (fst (process_data self) = Inr () \<longrightarrow>
        process_data (calls env cs self) = process_data self)"
proof -
  obtain l where l: "calls env cs self = self\<lparr>loaded_dataset := l\<rparr>"
    using calls_keep_input by blast
  show ?thesis
    unfolding l process_data_ignores_loaded
    by (cases "process_data self") (auto split: sum.splits)
qed

text \<open>
  On the small dataset: after \<^verbatim>\<open>process_data\<close>, \<^verbatim>\<open>calculate_wind_speed\<close>,
  \<^verbatim>\<open>process_data\<close> again and \<^verbatim>\<open>subsample_data\<close>, a further \<^verbatim>\<open>process_data\<close>
  gives the loaded dataset of the first.
\<close>

theorem process_data_recomputes_witness:
  "process_data example_proc = (Inr (), example_processed)
   \<and> process_data
        (calls example_env
           [ProcessData, CalculateWindSpeed ''u10'' ''v10'' ''wind_speed'', ProcessData,
            SubsampleData 2] example_proc)
      = (Inr (), example_processed)
   \<and> dataset (calls example_env
                [ProcessData, CalculateWindSpeed ''u10'' ''v10'' ''wind_speed'', ProcessData,
                 SubsampleData 2] example_proc) = example_ds"
  using process_data_recomputes
    [of example_env
        "[ProcessData, CalculateWindSpeed ''u10'' ''v10'' ''wind_speed'', ProcessData,
          SubsampleData 2]" example_proc]
  by (simp add: example_process_data) (simp add: example_proc_def init_def)

subsection \<open>Wind speed\<close>










subsection \<open>Subsampling\<close>









subsection \<open>The coordinates after \<^verbatim>\<open>process_data\<close>\<close>

text \<open>
  On a list that is ordered by a relation, a property that passes from an element to the
  elements before it holds of a prefix of the list, and the number of the elements that
  have it is the length of that prefix. Hence a slice between two such counts holds the
  elements that lack the first property and have the second: on an ascending index the
  labels from \<open>a\<close> to \<open>b\<close>, on a descending index the labels from \<open>a\<close> down to \<open>b\<close>.
\<close>

lemma prefix_count:
  assumes "sorted_wrt R xs" and "\<And>x y. R x y \<Longrightarrow> P y \<Longrightarrow> P x"
  shows "take (length (filter P xs)) xs = filter P xs
       \<and> drop (length (filter P xs)) xs = filter (\<lambda>x. \<not> P x) xs"
  using assms(1)
proof (induction xs)
  case Nil
  then show ?case by simp
next
  case (Cons x xs)
  show ?case
  proof (cases "P x")
    case True
    with Cons show ?thesis by simp
  next
    case False
    have "\<not> P y" if "y \<in> set xs" for y
      using that Cons.prems False assms(2) by auto
    then have "filter P xs = []" "filter (\<lambda>x. \<not> P x) xs = xs"
      by (simp_all add: filter_empty_conv filter_id_conv)
    with False show ?thesis by simp
  qed
qed

lemma islice_between:
  assumes "sorted_wrt R xs"
    and "\<And>x y. R x y \<Longrightarrow> P y \<Longrightarrow> P x" and "\<And>x y. R x y \<Longrightarrow> Q y \<Longrightarrow> Q x"
    and "x \<in> set (islice (length (filter P xs), length (filter Q xs)) xs)"
  shows "\<not> P x \<and> Q x"
proof -
  let ?s = "length (filter P xs)" and ?t = "length (filter Q xs)"
  from assms(4) have m: "x \<in> set (take (?t - ?s) (drop ?s xs))"
    by (simp add: islice_def)
  then have "x \<in> set (drop ?s xs)" by (rule in_set_takeD)
  then have 1: "\<not> P x"
    using prefix_count [OF assms(1), of P] assms(2) by auto
  from m have "x \<in> set (drop ?s (take ?t xs))" by (simp add: drop_take)
  then have "x \<in> set (take ?t xs)" by (rule in_set_dropD)
  then have 2: "Q x"
    using prefix_count [OF assms(1), of Q] assms(3) by auto
  from 1 2 show ?thesis ..
qed

lemma slice_indexer_ascending:
  fixes xs :: "'a::linorder list"
  assumes "sorted xs" and "slice_indexer xs a b = Inr se" and "x \<in> set (islice se xs)"
  shows "a \<le> x \<and> x \<le> b"
proof -
  from assms(1,2) have se: "se = (length (filter (\<lambda>x. x < a) xs), length (filter (\<lambda>x. x \<le> b) xs))"
    by (auto simp: slice_indexer_def get_slice_bound_def searchsorted_left_def
        searchsorted_right_def)
  have "\<not> x < a \<and> x \<le> b"
  proof (rule islice_between [where R = "(\<le>)" and xs = xs and P = "\<lambda>x. x < a"
        and Q = "\<lambda>x. x \<le> b"])
    show "sorted_wrt (\<le>) xs" using assms(1) by simp
    show "x \<in> set (islice (length (filter (\<lambda>x. x < a) xs), length (filter (\<lambda>x. x \<le> b) xs)) xs)"
      using assms(3) se by simp
  qed auto
  then show ?thesis by auto
qed

lemma slice_indexer_descending:
  fixes xs :: "'a::linorder list"
  assumes "sorted (rev xs)" and "\<not> sorted xs" and "slice_indexer xs a b = Inr se"
    and "x \<in> set (islice se xs)"
  shows "b \<le> x \<and> x \<le> a"
proof -
  have c: "length xs - length (filter Q xs) = length (filter (\<lambda>x. \<not> Q x) xs)" for Q
    using sum_length_filter_compl [of Q xs] by simp
  have r: "length (filter Q (rev xs)) = length (filter Q xs)" for Q
    by (simp flip: rev_filter)
  from assms(1-3) have se: "se = (length (filter (\<lambda>x. \<not> x \<le> a) xs),
                                  length (filter (\<lambda>x. \<not> x < b) xs))"
    by (auto simp: slice_indexer_def get_slice_bound_def searchsorted_left_def
        searchsorted_right_def r c)
  have "\<not> \<not> x \<le> a \<and> \<not> x < b"
  proof (rule islice_between [where R = "(\<ge>)" and xs = xs and P = "\<lambda>x. \<not> x \<le> a"
        and Q = "\<lambda>x. \<not> x < b"])
    show "sorted_wrt (\<ge>) xs" using assms(1) by (simp add: sorted_wrt_rev)
    show "x \<in> set (islice (length (filter (\<lambda>x. \<not> x \<le> a) xs),
                            length (filter (\<lambda>x. \<not> x < b) xs)) xs)"
      using assms(4) se by simp
  qed auto
  then show ?thesis by auto
qed



lemma sorted_argsort: "sorted (take_idx (argsort xs) xs)"
  unfolding take_idx_def argsort_def by (rule sorted_sort_key)


text \<open>
  Rounding. A number other than zero lies between two consecutive powers of two, and
  \<open>expo\<close> finds the lower one. There the doubles are the multiples of \<open>ulp\<close>, so
  rounding keeps a number between any two such multiples around it, keeps a multiple as
  it is, and moves no number by more than half of \<open>ulp\<close>.
\<close>

lemma pow2_powr: "pow2 e = 2 powr (of_int e)"
proof (cases "0 \<le> e")
  case True
  then show ?thesis by (simp add: pow2_def powr_realpow [symmetric])
next
  case False
  then have "2 powr (of_int e) = 1 / 2 powr (real (nat (- e)))"
    by (simp add: powr_minus_divide [symmetric])
  with False show ?thesis by (simp add: pow2_def powr_realpow [symmetric])
qed


lemma pow2_add: "pow2 (a + b) = pow2 a * pow2 b"
  by (simp add: pow2_powr powr_add)























lemma process_data_success:
  assumes "process_data self = (Inr (), self')"
  shows "\<exists>la lo ds.
           loaded_dataset self' = Some ds
         \<and> slice_indexer (latitude (dataset self)) (snd (lat (spatial_range self)))
              (fst (lat (spatial_range self))) = Inr la
         \<and> latitude ds = islice la (latitude (dataset self))
         \<and> (if convert_longitude self
            then slice_indexer
                   (take_idx (argsort (map convert_lon (longitude (dataset self))))
                      (map convert_lon (longitude (dataset self))))
                   (fst (lon (spatial_range self))) (snd (lon (spatial_range self))) = Inr lo
               \<and> longitude ds =
                   islice lo (take_idx (argsort (map convert_lon (longitude (dataset self))))
                                (map convert_lon (longitude (dataset self))))
            else slice_indexer (longitude (dataset self))
                   (fst (lon (spatial_range self))) (snd (lon (spatial_range self))) = Inr lo
               \<and> longitude ds = islice lo (longitude (dataset self)))"
  using assms
  by (auto simp: process_data_def sel_valid_time_def getitem_names_def sortby_longitude_def
      sel_region_def Let_def split: sum.splits prod.splits if_splits)




text \<open>
  Claim C6. For a spatial window of latitudes \<open>min_lat\<close> to \<open>max_lat\<close> (with
  \<open>min_lat \<le> max_lat\<close>) and longitudes \<open>min_lon\<close> to \<open>max_lon\<close>, and a dataset
  whose latitudes are in descending order and whose longitudes are in ascending order
  when the window is cut (the conversion is enabled, which sorts them, or they are
  ascending in the original dataset): when \<^verbatim>\<open>process_data\<close> completes, every latitude
  of the loaded dataset lies between \<open>min_lat\<close> and \<open>max_lat\<close> and every longitude
  between \<open>min_lon\<close> and \<open>max_lon\<close>.
\<close>

theorem cropped_to_window:
  assumes "process_data self = (Inr (), self')"
    and "lat (spatial_range self) = (min_lat, max_lat)"
    and "lon (spatial_range self) = (min_lon, max_lon)"
    and "sorted (rev (latitude (dataset self)))"
    and "convert_longitude self \<or> sorted (longitude (dataset self))"
    and "min_lat \<le> max_lat"
  shows "\<exists>ds. loaded_dataset self' = Some ds
           \<and> (\<forall>y\<in>set (latitude ds). min_lat \<le> y \<and> y \<le> max_lat)
           \<and> (\<forall>x\<in>set (longitude ds). min_lon \<le> x \<and> x \<le> max_lon)"
proof -
  let ?conv = "map convert_lon (longitude (dataset self))"
  let ?pre = "if convert_longitude self then take_idx (argsort ?conv) ?conv
              else longitude (dataset self)"
  from process_data_success [OF assms(1)] assms(2,3) obtain la lo ds where
    l: "loaded_dataset self' = Some ds"
    and ila: "slice_indexer (latitude (dataset self)) max_lat min_lat = Inr la"
    and lat: "latitude ds = islice la (latitude (dataset self))"
    and ilo: "slice_indexer ?pre min_lon max_lon = Inr lo"
    and lon: "longitude ds = islice lo ?pre"
    by (auto split: if_splits)
  have srt: "sorted ?pre"
    using assms(5) by (auto simp: sorted_argsort)
  have 1: "min_lat \<le> y \<and> y \<le> max_lat" if "y \<in> set (latitude ds)" for y
  proof (cases "sorted (latitude (dataset self))")
    case True
    from slice_indexer_ascending [OF True ila] that lat
    have "max_lat \<le> y \<and> y \<le> min_lat" by simp
    with assms(6) show ?thesis by simp
  next
    case False
    from slice_indexer_descending [OF assms(4) False ila] that lat
    show ?thesis by simp
  qed
  have 2: "min_lon \<le> x \<and> x \<le> max_lon" if "x \<in> set (longitude ds)" for x
    using slice_indexer_ascending [OF srt ilo] that lon by simp
  from l 1 2 show ?thesis by blast
qed

text \<open>
  On the small dataset: of the latitudes 50 and 40 the window 45 to 55 keeps 50, and
  the window -100 to 50 keeps both longitudes.
\<close>

theorem cropped_to_window_witness:
  "process_data example_proc = (Inr (), example_processed)
   \<and> lat (spatial_range example_proc) = (45, 55)
   \<and> lon (spatial_range example_proc) = (- 100, 50)
   \<and> sorted (rev (latitude (dataset example_proc)))
   \<and> convert_longitude example_proc
   \<and> (\<exists>ds. loaded_dataset example_processed = Some ds
          \<and> latitude ds = [50] \<and> longitude ds = [- 90, 0]
          \<and> (\<forall>y\<in>set (latitude ds). 45 \<le> y \<and> y \<le> 55)
          \<and> (\<forall>x\<in>set (longitude ds). - 100 \<le> x \<and> x \<le> 50))"
proof -
  have a: "lat (spatial_range example_proc) = (45, 55)"
    and b: "lon (spatial_range example_proc) = (- 100, 50)"
    and c: "sorted (rev (latitude (dataset example_proc)))"
    and d: "convert_longitude example_proc"
    by (simp_all add: example_proc_def init_def example_ds_def)
  from d have d': "convert_longitude example_proc \<or> sorted (longitude (dataset example_proc))" ..
  have e: "(45::real) \<le> 55" by simp
  from cropped_to_window [OF example_process_data a b c d' e]
  have "\<exists>ds. loaded_dataset example_processed = Some ds
          \<and> latitude ds = [50] \<and> longitude ds = [- 90, 0]
          \<and> (\<forall>y\<in>set (latitude ds). 45 \<le> y \<and> y \<le> 55)
          \<and> (\<forall>x\<in>set (longitude ds). - 100 \<le> x \<and> x \<le> 50)"
    by (auto simp: example_loaded_dataset example_loaded_def)
  with example_process_data a b c d show ?thesis by blast
qed

end
